theory Spec2Isabelle
  imports Complex_Main "HOL-Library.Word" "HOL-Library.AList"
begin

section \<open>Delegation chains and delegation identities\<close>

text \<open>
  A shallow embedding of \<^verbatim>\<open>packages/authentication/src/identity/delegation.ts\<close>:
  the signing of one delegation, the chain builder \<^verbatim>\<open>DelegationChain.create\<close>, the
  two directions of the JSON form (\<^verbatim>\<open>toJSON\<close>, \<^verbatim>\<open>fromJSON\<close>) and the request
  wrapper \<^verbatim>\<open>DelegationIdentity\<close>.

  A promise that rejects and a \<^verbatim>\<open>throw\<close> are both the left side of a sum
  \<open>error + 'a\<close>; an \<^verbatim>\<open>await\<close> is the case split on that sum, in the order the
  source awaits.
\<close>

subsection \<open>Bytes, errors and JavaScript values\<close>

type_synonym byte = "8 word"

text \<open>\<^verbatim>\<open>BinaryBlob\<close> and \<^verbatim>\<open>DerEncodedBlob\<close> are both a \<^verbatim>\<open>Buffer\<close>: a sequence of
  bytes. The casts between them (\<^verbatim>\<open>blobFromUint8Array\<close>, \<^verbatim>\<open>derBlobFromBlob\<close>)
  change the static type only.\<close>

type_synonym BinaryBlob = "byte list"

text \<open>\<^verbatim>\<open>TypeError\<close> is what the language raises when \<^verbatim>\<open>null\<close> or
  \<^verbatim>\<open>undefined\<close> is destructured, or an object has no text form; \<^verbatim>\<open>RangeError\<close>
  is what the engine raises when its stack is exhausted or a text would be too long;
  \<^verbatim>\<open>Error m\<close> is \<^verbatim>\<open>new Error(m)\<close>, and also stands for whatever a signer, the
  request-id function or the principal parser rejects with.\<close>

datatype error = TypeError | RangeError | Error string

text \<open>The values \<^verbatim>\<open>JSON.parse\<close> returns and \<^verbatim>\<open>JSON.stringify\<close> reads. An object is
  the list of its own properties, one for each key; it is only ever read by key.
  \<^verbatim>\<open>undefined\<close> is not a JSON value: a value that may be \<^verbatim>\<open>undefined\<close> is a
  \<open>json option\<close>. A text is a list of characters, and \<^verbatim>\<open>value.length\<close> is the
  length of that list.\<close>

datatype json =
    JNull
  | JBool bool
  | JNumber rat
  | JString string
  | JArray "json list"
  | JObject "(string \<times> json) list"

text \<open>Property access \<^verbatim>\<open>v.k\<close> for the keys this program reads (none of them is a
  property of a string, a number, a boolean or an array).\<close>

fun get :: "json \<Rightarrow> string \<Rightarrow> json option" where
  "get (JObject kvs) k = map_of kvs k"
| "get _ k = None"

text \<open>The object pattern \<^verbatim>\<open>const { ... } = v\<close>: it raises on \<^verbatim>\<open>null\<close> and
  \<^verbatim>\<open>undefined\<close>, and reads properties off anything else.\<close>

fun destructure :: "json option \<Rightarrow> error + json" where
  "destructure None = Inl TypeError"
| "destructure (Some JNull) = Inl TypeError"
| "destructure (Some v) = Inr v"

fun isArray :: "json option \<Rightarrow> bool" where
  "isArray (Some (JArray xs)) = True"
| "isArray _ = False"

text \<open>\<^verbatim>\<open>Array.prototype.map\<close> with a callback that may throw: the first throw ends
  the loop and is the result.\<close>

fun array_map :: "('a \<Rightarrow> error + 'b) \<Rightarrow> 'a list \<Rightarrow> error + 'b list" where
  "array_map f [] = Inr []"
| "array_map f (x # xs) =
     (case f x of
        Inl e \<Rightarrow> Inl e
      | Inr y \<Rightarrow> (case array_map f xs of Inl e \<Rightarrow> Inl e | Inr ys \<Rightarrow> Inr (y # ys)))"

subsection \<open>Hexadecimal text\<close>

definition hex_digit :: "nat \<Rightarrow> char" where
  "hex_digit n = (if n < 10 then char_of (48 + n) else char_of (87 + n))"

definition hex_value :: "char \<Rightarrow> nat option" where
  "hex_value c =
     (let n = (of_char c :: nat) in
      if 48 \<le> n \<and> n \<le> 57 then Some (n - 48)
      else if 97 \<le> n \<and> n \<le> 102 then Some (n - 87)
      else if 65 \<le> n \<and> n \<le> 70 then Some (n - 55)
      else None)"

text \<open>\<^verbatim>\<open>buffer.toString('hex')\<close>: two lower-case digits for each byte.\<close>

definition toString_hex :: "BinaryBlob \<Rightarrow> string" where
  "toString_hex bs =
     concat (map (\<lambda>b. [hex_digit (unat b div 16), hex_digit (unat b mod 16)]) bs)"

text \<open>Modelled from the spec: \<^verbatim>\<open>blobFromHex\<close> is imported from the agent package and
  is not among the source files. The specification calls the fields it reads
  hex-encoded, canonical in both directions: each pair of base-16 digits is one byte.
  It says nothing of a text that is not made of such pairs; the model stops reading
  at the first pair that is not two digits.\<close>

fun blobFromHex :: "string \<Rightarrow> BinaryBlob" where
  "blobFromHex (a # b # rest) =
     (case (hex_value a, hex_value b) of
        (Some h, Some l) \<Rightarrow> word_of_nat (16 * h + l) # blobFromHex rest
      | _ \<Rightarrow> [])"
| "blobFromHex _ = []"

subsection \<open>Big numbers and dates\<close>

text \<open>The expiration is a \<^verbatim>\<open>BigNumber\<close> of the bignumber.js library: here an integer
  of any size, or not-a-number. (The library also has fractions and infinities. The
  chain builder never makes one; reading a JSON value can, and the model has no value
  for them.)\<close>

datatype BigNumber = BN int | NaN

text \<open>A \<^verbatim>\<open>Date\<close> holds a time value in milliseconds, or is invalid.\<close>

datatype Date = Date int | Invalid_Date

text \<open>\<^verbatim>\<open>new Date(t)\<close> for a finite number: a time value beyond 8.64e15 ms gives an
  invalid date.\<close>

definition new_Date :: "int \<Rightarrow> Date" where
  "new_Date t = (if \<bar>t\<bar> \<le> 8640000000000000 then Date t else Invalid_Date)"

text \<open>\<^verbatim>\<open>+expiration\<close>: the time value as a number, \<^verbatim>\<open>NaN\<close> (here \<open>None\<close>) for an
  invalid date.\<close>

fun valueOf :: "Date \<Rightarrow> int option" where
  "valueOf (Date t) = Some t"
| "valueOf Invalid_Date = None"

text \<open>\<^verbatim>\<open>new BigNumber(n)\<close> for a number \<^verbatim>\<open>n\<close> that is an integer or \<^verbatim>\<open>NaN\<close>.\<close>

fun new_BigNumber :: "int option \<Rightarrow> BigNumber" where
  "new_BigNumber (Some n) = BN n"
| "new_BigNumber None = NaN"

fun times :: "BigNumber \<Rightarrow> int \<Rightarrow> BigNumber" where
  "times (BN a) b = BN (a * b)"
| "times NaN b = NaN"

function digits16 :: "nat \<Rightarrow> string" where
  "digits16 n = (if n < 16 then [hex_digit n] else digits16 (n div 16) @ [hex_digit (n mod 16)])"
  by pat_completeness auto
termination
  by (relation "measure id") auto

text \<open>\<^verbatim>\<open>x.toString(16)\<close>: the digits of the integer in base 16, after a minus sign
  when it is negative; never in exponent form.\<close>

fun BigNumber_toString16 :: "BigNumber \<Rightarrow> string" where
  "BigNumber_toString16 (BN i) =
     (if i < 0 then CHR ''-'' # digits16 (nat (- i)) else digits16 (nat i))"
| "BigNumber_toString16 NaN = ''NaN''"

definition lower16 :: "char \<Rightarrow> bool" where
  "lower16 c \<longleftrightarrow>
     (let n = (of_char c :: nat) in (48 \<le> n \<and> n \<le> 57) \<or> (97 \<le> n \<and> n \<le> 102))"

definition plain16 :: "string \<Rightarrow> bool" where
  "plain16 s \<longleftrightarrow> s \<noteq> [] \<and> list_all lower16 s"

definition value16 :: "string \<Rightarrow> nat" where
  "value16 s = foldl (\<lambda>acc c. 16 * acc + (case hex_value c of Some d \<Rightarrow> d | None \<Rightarrow> 0)) 0 s"

text \<open>\<^verbatim>\<open>String(v)\<close>, the first thing \<^verbatim>\<open>new BigNumber(v, 16)\<close> does with its
  argument: what it raises, if anything (\<open>None\<close>: it returns a text). It returns a
  text for every primitive value. For an object the language calls its
  \<^verbatim>\<open>toString\<close>; an object read from JSON that has a property of that name has a
  \<^verbatim>\<open>toString\<close> that is no function, and the conversion raises a \<^verbatim>\<open>TypeError\<close>.
  An array is converted by \<^verbatim>\<open>Array.prototype.join\<close>, which converts the elements in
  turn: it raises what the conversion of an element raises, and the engine's
  \<^verbatim>\<open>RangeError\<close> when the arrays are nested too deep for its stack or the text
  would be too long for it. Where those limits lie depends on the engine: what the
  join of a list of elements raises is the parameter \<open>join_raises\<close>.\<close>

fun String_raises :: "(json list \<Rightarrow> error option) \<Rightarrow> json \<Rightarrow> error option" where
  "String_raises join_raises (JObject kvs) =
     (if map_of kvs ''toString'' = None then None else Some TypeError)"
| "String_raises join_raises (JArray xs) = join_raises xs"
| "String_raises join_raises v = None"

text \<open>The letters that stand in no numeral the library reads in base 16: in either
  case, they are no digit (\<^verbatim>\<open>a\<close> to \<^verbatim>\<open>f\<close>), no letter of \<^verbatim>\<open>Infinity\<close> or
  \<^verbatim>\<open>NaN\<close>, and no letter of a base prefix (\<^verbatim>\<open>0x\<close>, \<^verbatim>\<open>0o\<close>, \<^verbatim>\<open>0b\<close>).\<close>

definition no_numeral_letter :: "char \<Rightarrow> bool" where
  "no_numeral_letter c \<longleftrightarrow> c \<in> set ''ghjklmpqrsuvwzGHJKLMPQRSUVWZ''"

text \<open>\<^verbatim>\<open>new BigNumber(v, 16)\<close>. The library is not part of the repository. What is
  modelled of it: it raises what \<^verbatim>\<open>String(v)\<close> raises, and nothing of its own (in
  its default configuration, which the repository never changes); a text of
  lower-case base-16 digits, after an optional minus sign, is read as that integer;
  a text that holds a letter of no numeral is read as \<^verbatim>\<open>NaN\<close>. Its reading of any
  other value (upper-case digits, a fraction point, a number, \<^verbatim>\<open>undefined\<close>) is
  the parameter \<open>other\<close>.\<close>

fun new_BigNumber16 ::
  "(json option \<Rightarrow> BigNumber) \<Rightarrow> (json list \<Rightarrow> error option) \<Rightarrow> json option \<Rightarrow> error + BigNumber" where
  "new_BigNumber16 other join_raises (Some (JString s)) =
     Inr (case s of
            c # r \<Rightarrow>
              if c = CHR ''-'' \<and> plain16 r then BN (- int (value16 r))
              else if plain16 s then BN (int (value16 s))
              else if list_ex no_numeral_letter s then NaN
              else other (Some (JString s))
          | [] \<Rightarrow> other (Some (JString s)))"
| "new_BigNumber16 other join_raises (Some v) =
     (case String_raises join_raises v of
        Some e \<Rightarrow> Inl e
      | None \<Rightarrow> Inr (other (Some v)))"
| "new_BigNumber16 other join_raises None = Inr (other None)"

subsection \<open>The data model\<close>

text \<open>\<^verbatim>\<open>Principal\<close> is a class of the agent package; here a type parameter \<open>'p\<close>, with
  \<^verbatim>\<open>p.toText()\<close> and \<^verbatim>\<open>Principal.fromText\<close> (which may throw) as parameters of the
  functions that call them. An optional field is an \<open>option\<close>.\<close>

record 'p Delegation =
  pubkey :: BinaryBlob
  expiration :: BigNumber
  targets :: "'p list option"

record 'p SignedDelegation =
  delegation :: "'p Delegation"
  signature :: BinaryBlob

record PublicKey =
  toDer :: BinaryBlob

text \<open>\<^verbatim>\<open>SignIdentity\<close>: \<^verbatim>\<open>sign\<close> returns a promise, which may reject. What a signer
  answers is taken to depend on the message alone.\<close>

record SignIdentity =
  getPublicKey :: PublicKey
  sign :: "BinaryBlob \<Rightarrow> error + BinaryBlob"

record 'p DelegationChain =
  delegations :: "'p SignedDelegation list"
  publicKey :: BinaryBlob

text \<open>The second argument of \<^verbatim>\<open>create\<close>.\<close>

record 'p create_options =
  previous :: "'p DelegationChain option"

text \<open>\<^verbatim>\<open>DelegationIdentity\<close>, with its private fields \<^verbatim>\<open>_inner\<close> and
  \<^verbatim>\<open>_delegation\<close>.\<close>

record 'p DelegationIdentity =
  p_inner :: SignIdentity
  p_delegation :: "'p DelegationChain"

text \<open>A request: its \<^verbatim>\<open>body\<close> and, in \<open>rest\<close>, all its other properties (what
  \<^verbatim>\<open>const { body, ...fields } = request\<close> binds).\<close>

record ('b, 'f) HttpAgentRequest =
  body :: 'b
  rest :: 'f

record ('b, 'p) envelope =
  content :: 'b
  sender_sig :: BinaryBlob
  sender_delegation :: "'p SignedDelegation list"
  sender_pubkey :: BinaryBlob

subsection \<open>Domain separators\<close>

text \<open>\<^verbatim>\<open>new TextEncoder().encode(s)\<close>: UTF-8. A character below 128 is one byte; the
  others of this 8-bit character type are two.\<close>

definition TextEncoder_encode :: "string \<Rightarrow> BinaryBlob" where
  "TextEncoder_encode s =
     concat (map (\<lambda>c. let n = (of_char c :: nat) in
                    if n < 128 then [word_of_nat n]
                    else [word_of_nat (192 + n div 64), word_of_nat (128 + n mod 64)]) s)"

definition domainSeparator :: BinaryBlob where
  "domainSeparator = TextEncoder_encode (CHR 0x1A # ''ic-request-auth-delegation'')"

definition requestDomainSeparator :: BinaryBlob where
  "requestDomainSeparator = TextEncoder_encode (CHR 0x0A # ''ic-request'')"

subsection \<open>Signing one delegation\<close>

text \<open>\<^verbatim>\<open>requestIdOf\<close>, the canonical request-id digest, is imported from the agent
  package: a parameter, which may reject as any promise may.\<close>

definition signDelegation ::
  "('p Delegation \<Rightarrow> error + BinaryBlob) \<Rightarrow> 'p Delegation \<Rightarrow> SignIdentity \<Rightarrow> error + BinaryBlob" where
  "signDelegation requestIdOf innerDelegation identity =
     (case requestIdOf innerDelegation of
        Inl e \<Rightarrow> Inl e
      | Inr requestId \<Rightarrow> sign identity (domainSeparator @ requestId))"

text \<open>\<^verbatim>\<open>_createSingleDelegation\<close>. The spread \<^verbatim>\<open>...(targets && { targets })\<close> adds
  the field when \<^verbatim>\<open>targets\<close> is an array (an array is truthy, also when empty) and
  nothing when it is \<^verbatim>\<open>undefined\<close>.\<close>

definition createSingleDelegation ::
  "('p Delegation \<Rightarrow> error + BinaryBlob) \<Rightarrow> SignIdentity \<Rightarrow> PublicKey \<Rightarrow> Date \<Rightarrow> 'p list option
     \<Rightarrow> error + 'p SignedDelegation" where
  "createSingleDelegation requestIdOf from to expiration' targets' =
     (let delegation' = \<lparr>pubkey = toDer to,
                         expiration = times (new_BigNumber (valueOf expiration')) 1000000,
                         targets = targets'\<rparr>
      in case signDelegation requestIdOf delegation' from of
           Inl e \<Rightarrow> Inl e
         | Inr signature' \<Rightarrow> Inr \<lparr>delegation = delegation', signature = signature'\<rparr>)"

subsection \<open>The chain builder\<close>

text \<open>\<^verbatim>\<open>DelegationChain.create\<close>. \<open>now\<close> is \<^verbatim>\<open>Date.now()\<close>, read only when no
  expiration is given. \<^verbatim>\<open>options.previous?.delegations || []\<close> and
  \<^verbatim>\<open>options.previous?.publicKey || from.getPublicKey().toDer()\<close> take the right-hand
  side only when there is no previous chain: an array and a buffer are objects, and
  every object is truthy.\<close>

definition create ::
  "('p Delegation \<Rightarrow> error + BinaryBlob) \<Rightarrow> int \<Rightarrow> SignIdentity \<Rightarrow> PublicKey \<Rightarrow> Date option
     \<Rightarrow> 'p create_options \<Rightarrow> error + 'p DelegationChain" where
  "create requestIdOf now from to expiration' options =
     (let expiration'' = (case expiration' of
                            None \<Rightarrow> new_Date (now + 15 * 60 * 1000)
                          | Some d \<Rightarrow> d)
      in case createSingleDelegation requestIdOf from to expiration'' None of
           Inl e \<Rightarrow> Inl e
         | Inr delegation' \<Rightarrow>
             Inr \<lparr>delegations =
                    (case previous options of Some p \<Rightarrow> delegations p | None \<Rightarrow> []) @ [delegation'],
                  publicKey =
                    (case previous options of
                       Some p \<Rightarrow> publicKey p
                     | None \<Rightarrow> toDer (getPublicKey from))\<rparr>)"

subsection \<open>The JSON form of a chain\<close>

function digits10 :: "nat \<Rightarrow> string" where
  "digits10 n = (if n < 10 then [char_of (48 + n)] else digits10 (n div 10) @ [char_of (48 + n mod 10)])"
  by pat_completeness auto
termination
  by (relation "measure id") auto

text \<open>The spread of an array into an object literal, \<^verbatim>\<open>{ ...[a, b] }\<close>: each element
  becomes a property whose key is its index, \<^verbatim>\<open>{ "0": a, "1": b }\<close>.\<close>

definition spread_array :: "json list \<Rightarrow> (string \<times> json) list" where
  "spread_array xs = zip (map digits10 [0..<length xs]) xs"

text \<open>\<^verbatim>\<open>DelegationChain.toJSON\<close>. The last part of the inner object is
  \<^verbatim>\<open>...(delegation.targets && delegation.targets.map(p => p.toText()))\<close>: when there
  are no targets it spreads \<^verbatim>\<open>undefined\<close>, which adds nothing; when there are, it
  spreads the array of texts itself.\<close>

definition toJSON :: "('p \<Rightarrow> string) \<Rightarrow> 'p DelegationChain \<Rightarrow> json" where
  "toJSON toText this =
     JObject
       [(''delegations'',
         JArray (map (\<lambda>signedDelegation.
                   let delegation' = delegation signedDelegation;
                       signature' = signature signedDelegation
                   in JObject
                        [(''delegation'',
                          JObject ([(''expiration'', JString (BigNumber_toString16 (expiration delegation'))),
                                    (''pubkey'', JString (toString_hex (pubkey delegation')))]
                                   @ (case targets delegation' of
                                        None \<Rightarrow> []
                                      | Some ts \<Rightarrow> spread_array (map (\<lambda>p. JString (toText p)) ts)))),
                         (''signature'', JString (toString_hex signature'))])
                 (delegations this))),
        (''publicKey'', JString (toString_hex (publicKey this)))]"

definition parseBlob :: "json option \<Rightarrow> error + BinaryBlob" where
  "parseBlob v =
     (case v of
        Some (JString s) \<Rightarrow>
          if length s < 64 then Inl (Error ''Invalid public key.'') else Inr (blobFromHex s)
      | _ \<Rightarrow> Inl (Error ''Invalid public key.''))"

text \<open>The callback of \<^verbatim>\<open>targets.map\<close> in \<^verbatim>\<open>fromJSON\<close>; \<open>fromText\<close> is
  \<^verbatim>\<open>Principal.fromText\<close>.\<close>

definition parseTarget :: "(string \<Rightarrow> error + 'p) \<Rightarrow> json \<Rightarrow> error + 'p" where
  "parseTarget fromText t =
     (case t of JString s \<Rightarrow> fromText s | _ \<Rightarrow> Inl (Error ''Invalid target.''))"

text \<open>The callback of \<^verbatim>\<open>delegations.map\<close> in \<^verbatim>\<open>fromJSON\<close>. The fields of the
  object literal are evaluated in the order they are written: \<^verbatim>\<open>pubkey\<close>,
  \<^verbatim>\<open>expiration\<close>, the targets, \<^verbatim>\<open>signature\<close>. After the check, \<^verbatim>\<open>targets\<close> is
  \<^verbatim>\<open>undefined\<close> or an array, and \<^verbatim>\<open>targets && ...\<close> is taken for every array.\<close>

definition parseSignedDelegation ::
  "(json option \<Rightarrow> BigNumber) \<Rightarrow> (json list \<Rightarrow> error option) \<Rightarrow> (string \<Rightarrow> error + 'p) \<Rightarrow> json
     \<Rightarrow> error + 'p SignedDelegation" where
  "parseSignedDelegation other join_raises fromText signedDelegation =
     (case destructure (Some signedDelegation) of
        Inl e \<Rightarrow> Inl e
      | Inr sd \<Rightarrow>
     (case destructure (get sd ''delegation'') of
        Inl e \<Rightarrow> Inl e
      | Inr d \<Rightarrow>
     if get d ''targets'' \<noteq> None \<and> \<not> isArray (get d ''targets'')
     then Inl (Error ''Invalid targets.'')
     else
     (case parseBlob (get d ''pubkey'') of
        Inl e \<Rightarrow> Inl e
      | Inr pubkey' \<Rightarrow>
     (case new_BigNumber16 other join_raises (get d ''expiration'') of
        Inl e \<Rightarrow> Inl e
      | Inr expiration' \<Rightarrow>
     (case (case get d ''targets'' of
              Some (JArray ts) \<Rightarrow>
                (case array_map (parseTarget fromText) ts of
                   Inl e \<Rightarrow> Inl e
                 | Inr ps \<Rightarrow> Inr (Some ps))
            | _ \<Rightarrow> Inr None) of
        Inl e \<Rightarrow> Inl e
      | Inr targets' \<Rightarrow>
     (case parseBlob (get sd ''signature'') of
        Inl e \<Rightarrow> Inl e
      | Inr signature' \<Rightarrow>
          Inr \<lparr>delegation = \<lparr>pubkey = pubkey', expiration = expiration', targets = targets'\<rparr>,
               signature = signature'\<rparr>))))))"

text \<open>\<^verbatim>\<open>DelegationChain.fromJSON\<close>, from the value \<^verbatim>\<open>JSON.parse(json)\<close> returns on. (A
  text that is not JSON makes \<^verbatim>\<open>JSON.parse\<close> raise before any of this runs.)\<close>

definition fromJSON ::
  "(json option \<Rightarrow> BigNumber) \<Rightarrow> (json list \<Rightarrow> error option) \<Rightarrow> (string \<Rightarrow> error + 'p) \<Rightarrow> json
     \<Rightarrow> error + 'p DelegationChain" where
  "fromJSON other join_raises fromText parsed =
     (case destructure (Some parsed) of
        Inl e \<Rightarrow> Inl e
      | Inr obj \<Rightarrow>
          (case get obj ''delegations'' of
             Some (JArray ds) \<Rightarrow>
               (case array_map (parseSignedDelegation other join_raises fromText) ds of
                  Inl e \<Rightarrow> Inl e
                | Inr parsedDelegations \<Rightarrow>
                    (case parseBlob (get obj ''publicKey'') of
                       Inl e \<Rightarrow> Inl e
                     | Inr publicKey' \<Rightarrow>
                         Inr \<lparr>delegations = parsedDelegations, publicKey = publicKey'\<rparr>))
           | _ \<Rightarrow> Inl (Error ''Invalid delegations.'')))"

subsection \<open>The delegation identity\<close>

definition fromDelegation :: "SignIdentity \<Rightarrow> 'p DelegationChain \<Rightarrow> 'p DelegationIdentity" where
  "fromDelegation key delegation' = \<lparr>p_inner = key, p_delegation = delegation'\<rparr>"

definition getDelegation :: "'p DelegationIdentity \<Rightarrow> 'p DelegationChain" where
  "getDelegation this = p_delegation this"

definition DelegationIdentity_getPublicKey :: "'p DelegationIdentity \<Rightarrow> PublicKey" where
  "DelegationIdentity_getPublicKey this = \<lparr>toDer = publicKey (p_delegation this)\<rparr>"

definition DelegationIdentity_sign :: "'p DelegationIdentity \<Rightarrow> BinaryBlob \<Rightarrow> error + BinaryBlob" where
  "DelegationIdentity_sign this blob = sign (p_inner this) blob"

definition transformRequest ::
  "('b \<Rightarrow> error + BinaryBlob) \<Rightarrow> 'p DelegationIdentity \<Rightarrow> ('b, 'f) HttpAgentRequest
     \<Rightarrow> error + (('b, 'p) envelope, 'f) HttpAgentRequest" where
  "transformRequest requestIdOf this request =
     (case requestIdOf (body request) of
        Inl e \<Rightarrow> Inl e
      | Inr requestId \<Rightarrow>
          (case DelegationIdentity_sign this (requestDomainSeparator @ requestId) of
             Inl e \<Rightarrow> Inl e
           | Inr sig \<Rightarrow>
               Inr \<lparr>body = \<lparr>content = body request,
                           sender_sig = sig,
                           sender_delegation = delegations (p_delegation this),
                           sender_pubkey = publicKey (p_delegation this)\<rparr>,
                    rest = rest request\<rparr>))"

subsection \<open>Vocabulary of the properties\<close>

text \<open>A JSON value that is a text; a sequence of texts; a text of at least 64
  characters (\<open>None\<close> is an absent property).\<close>

fun isString :: "json \<Rightarrow> bool" where
  "isString (JString s) = True"
| "isString _ = False"

fun isTexts :: "json \<Rightarrow> bool" where
  "isTexts (JArray ts) = list_all isString ts"
| "isTexts _ = False"

fun isKey :: "json option \<Rightarrow> bool" where
  "isKey (Some (JString s)) = (64 \<le> length s)"
| "isKey _ = False"

text \<open>An object with one property set to a value, or removed (\<open>None\<close>); anything
  that is not an object is left as it is.\<close>

fun set_prop :: "string \<Rightarrow> json option \<Rightarrow> json \<Rightarrow> json" where
  "set_prop k (Some x) (JObject kvs) = JObject (AList.update k x kvs)"
| "set_prop k None (JObject kvs) = JObject (AList.delete k kvs)"
| "set_prop k x v = v"

text \<open>An entry of \<^verbatim>\<open>delegations\<close> with the \<^verbatim>\<open>expiration\<close> of its delegation replaced
  by \<open>x\<close>, and a parsed input with the expiration of entry \<open>i\<close> replaced by
  \<open>f i\<close>, for every entry.\<close>

definition with_expiration :: "json option \<Rightarrow> json \<Rightarrow> json" where
  "with_expiration x e =
     (case get e ''delegation'' of
        Some d \<Rightarrow> set_prop ''delegation'' (Some (set_prop ''expiration'' x d)) e
      | None \<Rightarrow> e)"

definition with_expirations :: "(nat \<Rightarrow> json option) \<Rightarrow> json \<Rightarrow> json" where
  "with_expirations f v =
     (case get v ''delegations'' of
        Some (JArray ds) \<Rightarrow>
          set_prop ''delegations''
            (Some (JArray (map (\<lambda>(i, e). with_expiration (f i) e) (enumerate 0 ds)))) v
      | _ \<Rightarrow> v)"

definition expiring :: "BigNumber \<Rightarrow> 'p SignedDelegation \<Rightarrow> 'p SignedDelegation" where
  "expiring x sd = sd\<lparr>delegation := (delegation sd)\<lparr>expiration := x\<rparr>\<rparr>"

text \<open>The chains that \<^verbatim>\<open>create\<close> builds: from nothing, or from a chain it built.\<close>

inductive built_by_create :: "('p Delegation \<Rightarrow> error + BinaryBlob) \<Rightarrow> 'p DelegationChain \<Rightarrow> bool"
  for requestIdOf :: "'p Delegation \<Rightarrow> error + BinaryBlob" where
  first: "create requestIdOf now from to expiration' \<lparr>previous = None\<rparr> = Inr c
            \<Longrightarrow> built_by_create requestIdOf c"
| extend: "built_by_create requestIdOf p
            \<Longrightarrow> create requestIdOf now from to expiration' \<lparr>previous = Some p\<rparr> = Inr c
            \<Longrightarrow> built_by_create requestIdOf c"

subsection \<open>Sample collaborators and inputs\<close>

text \<open>Concrete stand-ins for the imported parts, used where a property is run on an
  input: principals that are their own text, a big-number reader that gives \<^verbatim>\<open>NaN\<close>
  for whatever the model leaves to it, an engine that converts arrays nested up to
  1000 deep whatever the length of the text, a request-id function with a fixed
  digest, and signers that prefix the message with their key.\<close>

definition sample_toText :: "string \<Rightarrow> string" where
  "sample_toText p = p"

definition sample_fromText :: "string \<Rightarrow> error + string" where
  "sample_fromText t = Inr t"

definition sample_other :: "json option \<Rightarrow> BigNumber" where
  "sample_other v = NaN"

fun sample_String_raises :: "nat \<Rightarrow> json \<Rightarrow> error option"
  and sample_join :: "nat \<Rightarrow> json list \<Rightarrow> error option" where
  "sample_String_raises depth (JObject kvs) =
     (if map_of kvs ''toString'' = None then None else Some TypeError)"
| "sample_String_raises depth (JArray xs) =
     (if depth = 0 then Some RangeError else sample_join (depth - 1) xs)"
| "sample_String_raises depth v = None"
| "sample_join depth [] = None"
| "sample_join depth (x # xs) =
     (case sample_String_raises depth x of Some e \<Rightarrow> Some e | None \<Rightarrow> sample_join depth xs)"

definition sample_join_raises :: "json list \<Rightarrow> error option" where
  "sample_join_raises xs = sample_join 1000 xs"

definition sample_requestIdOf :: "'a \<Rightarrow> error + BinaryBlob" where
  "sample_requestIdOf x = Inr [1, 2, 3]"

definition sample_signer :: "BinaryBlob \<Rightarrow> SignIdentity" where
  "sample_signer key = \<lparr>getPublicKey = \<lparr>toDer = key\<rparr>, sign = (\<lambda>blob. Inr (key @ blob))\<rparr>"

definition sample_chain :: "string DelegationChain" where
  "sample_chain =
     \<lparr>delegations =
        [\<lparr>delegation = \<lparr>pubkey = replicate 32 7, expiration = BN 4102444800000000000, targets = None\<rparr>,
          signature = replicate 32 9\<rparr>],
      publicKey = replicate 32 1\<rparr>"

definition short_key_chain :: "string DelegationChain" where
  "short_key_chain = \<lparr>delegations = [], publicKey = [1, 2, 3]\<rparr>"

definition targets_chain :: "string DelegationChain" where
  "targets_chain =
     \<lparr>delegations =
        [\<lparr>delegation = \<lparr>pubkey = [1], expiration = BN 255, targets = Some [''aaaaa-aa'']\<rparr>,
          signature = [2]\<rparr>],
      publicKey = [3]\<rparr>"

definition restricted_chain :: "string DelegationChain" where
  "restricted_chain =
     \<lparr>delegations =
        [\<lparr>delegation = \<lparr>pubkey = replicate 32 7, expiration = BN 255, targets = Some [''aaaaa-aa'']\<rparr>,
          signature = replicate 32 9\<rparr>],
      publicKey = replicate 32 1\<rparr>"

definition sample_expirations :: "nat \<Rightarrow> json option" where
  "sample_expirations i = (if i = 0 then Some (JString ''soon'') else Some (JString ''1000''))"

definition sample_parsed :: json where
  "sample_parsed =
     JObject
       [(''publicKey'', JString (replicate 64 (CHR ''a''))),
        (''delegations'',
         JArray
           [JObject
              [(''delegation'',
                JObject [(''pubkey'', JString (replicate 64 (CHR ''b''))),
                         (''expiration'', JString ''ff'')]),
               (''signature'', JString (replicate 64 (CHR ''c'')))],
            JObject
              [(''delegation'',
                JObject [(''pubkey'', JString (replicate 64 (CHR ''d''))),
                         (''expiration'', JString ''-10'')]),
               (''signature'', JString (replicate 64 (CHR ''e'')))]])]"

text \<open>Two inputs that differ in the expiration only: a text that is no numeral, and an
  object with a property named \<^verbatim>\<open>toString\<close>.\<close>

definition readable_parsed :: json where
  "readable_parsed =
     JObject
       [(''publicKey'', JString (replicate 64 (CHR ''a''))),
        (''delegations'',
         JArray
           [JObject
              [(''delegation'',
                JObject [(''pubkey'', JString (replicate 64 (CHR ''b''))),
                         (''expiration'', JString ''zz'')]),
               (''signature'', JString (replicate 64 (CHR ''c'')))]])]"

definition unreadable_parsed :: json where
  "unreadable_parsed =
     JObject
       [(''publicKey'', JString (replicate 64 (CHR ''a''))),
        (''delegations'',
         JArray
           [JObject
              [(''delegation'',
                JObject [(''pubkey'', JString (replicate 64 (CHR ''b''))),
                         (''expiration'', JObject [(''toString'', JNull)])]),
               (''signature'', JString (replicate 64 (CHR ''c'')))]])]"

section \<open>Properties\<close>

declare digits16.simps [simp del] digits10.simps [simp del]

subsection \<open>Hexadecimal text is read back\<close>

lemma hex_value_digit: "n < 16 \<Longrightarrow> hex_value (hex_digit n) = Some n"
  by (auto simp: hex_value_def hex_digit_def Let_def)

lemma blobFromHex_toString_hex: "blobFromHex (toString_hex bs) = bs"
proof (induction bs)
  case Nil
  then show ?case by (simp add: toString_hex_def)
next
  case (Cons b bs)
  have "unat b < 256" using unsigned_less [of b] by simp
  then have hi: "unat b div 16 < 16" by simp
  have "16 * (unat b div 16) + unat b mod 16 = unat b" by simp
  then show ?case using Cons hi
    by (simp add: toString_hex_def hex_value_digit)
qed

lemma length_toString_hex: "length (toString_hex bs) = 2 * length bs"
  by (induction bs) (simp_all add: toString_hex_def)

lemma parseBlob_toString_hex:
  "parseBlob (Some (JString (toString_hex bs))) =
     (if length bs < 32 then Inl (Error ''Invalid public key.'') else Inr bs)"
  by (simp add: parseBlob_def length_toString_hex blobFromHex_toString_hex)

lemma plain16_alt: "plain16 s \<longleftrightarrow> s \<noteq> [] \<and> (\<forall>c\<in>set s. lower16 c)"
  by (simp add: plain16_def list_all_iff)

lemma lower16_hex_digit: "n < 16 \<Longrightarrow> lower16 (hex_digit n)"
  by (auto simp: lower16_def hex_digit_def Let_def)

lemma digits16_props:
  "digits16 n \<noteq> [] \<and> (\<forall>c\<in>set (digits16 n). lower16 c) \<and> value16 (digits16 n) = n"
proof (induction n rule: digits16.induct)
  case (1 n)
  show ?case
  proof (cases "n < 16")
    case True
    then show ?thesis
      by (simp add: digits16.simps [of n] lower16_hex_digit value16_def hex_value_digit)
  next
    case False
    with 1 have ih: "digits16 (n div 16) \<noteq> []" "\<forall>c\<in>set (digits16 (n div 16)). lower16 c"
      "value16 (digits16 (n div 16)) = n div 16" by simp_all
    have m: "n mod 16 < 16" by simp
    have "value16 (digits16 (n div 16) @ [hex_digit (n mod 16)]) = 16 * (n div 16) + n mod 16"
      using ih(3) m by (simp add: value16_def hex_value_digit)
    then show ?thesis using False ih m
      by (simp add: digits16.simps [of n] lower16_hex_digit)
  qed
qed

text \<open>The base-16 text of an integer is read back as that integer, whatever the
  library does with other texts.\<close>

lemma new_BigNumber16_toString16:
  "new_BigNumber16 other join_raises (Some (JString (BigNumber_toString16 (BN i)))) = Inr (BN i)"
proof -
  define n where "n = nat \<bar>i\<bar>"
  obtain c r where cr: "digits16 n = c # r"
    using digits16_props [of n] by (cases "digits16 n") auto
  have p: "plain16 (digits16 n)" and v: "value16 (digits16 n) = n"
    using digits16_props [of n] by (simp_all add: plain16_alt)
  have "lower16 c" using digits16_props [of n] cr by simp
  then have cm: "c \<noteq> CHR ''-''" by (auto simp: lower16_def Let_def)
  show ?thesis
  proof (cases "i < 0")
    case True
    then have "nat (- i) = n" by (simp add: n_def)
    then show ?thesis using True p v by (simp add: n_def)
  next
    case False
    then have "nat i = n" by (simp add: n_def)
    then show ?thesis using False p v cr cm by (simp add: n_def)
  qed
qed

lemma digits16_small: "n < 16 \<Longrightarrow> digits16 n = [hex_digit n]"
  by (simp add: digits16.simps [of n])

lemma digits16_step: "16 \<le> n \<Longrightarrow> digits16 n = digits16 (n div 16) @ [hex_digit (n mod 16)]"
  by (simp add: digits16.simps [of n])

subsection \<open>The round trip through JSON\<close>

lemma parse_entry_roundtrip:
  fixes sd :: "'p SignedDelegation"
  assumes "targets (delegation sd) = None" "expiration (delegation sd) = BN i"
    "32 \<le> length (pubkey (delegation sd))" "32 \<le> length (signature sd)"
  shows "parseSignedDelegation other join_raises fromText
           (JObject
              [(''delegation'',
                JObject ([(''expiration'', JString (BigNumber_toString16 (expiration (delegation sd)))),
                          (''pubkey'', JString (toString_hex (pubkey (delegation sd))))]
                         @ (case targets (delegation sd) of
                              None \<Rightarrow> []
                            | Some ts \<Rightarrow> spread_array (map (\<lambda>p. JString (toText p)) ts)))),
               (''signature'', JString (toString_hex (signature sd)))]) = Inr sd"
proof -
  have e: "new_BigNumber16 other join_raises (Some (JString (BigNumber_toString16 (expiration (delegation sd)))))
             = Inr (BN i)"
    by (simp only: assms(2) new_BigNumber16_toString16)
  have "?thesis \<longleftrightarrow>
        \<lparr>delegation = \<lparr>pubkey = pubkey (delegation sd), expiration = BN i, targets = None\<rparr>,
         signature = signature sd\<rparr> = sd"
    using assms(1,3,4) e
    by (simp add: parseSignedDelegation_def parseBlob_toString_hex del: BigNumber_toString16.simps)
  then show ?thesis using assms(1,2) by simp
qed

lemma array_map_roundtrip:
  "(\<And>x. x \<in> set xs \<Longrightarrow> f (g x) = Inr x) \<Longrightarrow> array_map f (map g xs) = Inr xs"
  by (induction xs) simp_all

text \<open>
  Claim C1, as amended. For every chain whose delegations carry no targets, whose
  expirations are integers, and whose delegate keys, signatures and root public key
  are each at least 32 bytes long (64 characters of hexadecimal text),
  \<^verbatim>\<open>fromJSON\<close> applied to what \<^verbatim>\<open>toJSON\<close> returns gives back the same chain: every
  delegation's key bytes, expiration and absent targets, every signature, and the root
  public key.
\<close>

theorem fromJSON_toJSON:
  fixes C :: "'p DelegationChain"
  assumes "\<forall>sd\<in>set (delegations C).
             targets (delegation sd) = None \<and> (\<exists>i. expiration (delegation sd) = BN i) \<and>
             32 \<le> length (pubkey (delegation sd)) \<and> 32 \<le> length (signature sd)"
    and "32 \<le> length (publicKey C)"
  shows "fromJSON other join_raises fromText (toJSON toText C) = Inr C"
proof -
  let ?g = "\<lambda>signedDelegation.
                   let delegation' = delegation signedDelegation;
                       signature' = signature signedDelegation
                   in JObject
                        [(''delegation'',
                          JObject ([(''expiration'', JString (BigNumber_toString16 (expiration delegation'))),
                                    (''pubkey'', JString (toString_hex (pubkey delegation')))]
                                   @ (case targets delegation' of
                                        None \<Rightarrow> []
                                      | Some ts \<Rightarrow> spread_array (map (\<lambda>p. JString (toText p)) ts)))),
                         (''signature'', JString (toString_hex signature'))]"
  have "array_map (parseSignedDelegation other join_raises fromText) (map ?g (delegations C)) = Inr (delegations C)"
  proof (rule array_map_roundtrip)
    fix sd assume "sd \<in> set (delegations C)"
    with assms(1) obtain i where "targets (delegation sd) = None" "expiration (delegation sd) = BN i"
      "32 \<le> length (pubkey (delegation sd))" "32 \<le> length (signature sd)" by blast
    then show "parseSignedDelegation other join_raises fromText (?g sd) = Inr sd"
      using parse_entry_roundtrip [of sd i other join_raises fromText toText] by (simp add: Let_def)
  qed
  then show ?thesis using assms(2)
    by (simp add: fromJSON_def toJSON_def parseBlob_toString_hex)
qed

theorem fromJSON_toJSON_witness:
  "fromJSON sample_other sample_join_raises sample_fromText (toJSON sample_toText sample_chain) = Inr sample_chain"
  using fromJSON_toJSON [of sample_chain sample_other sample_join_raises sample_fromText sample_toText]
  by (simp add: sample_chain_def)

text \<open>
  The claim as first stated, for every chain, fails: a chain whose root public key is
  three bytes long is written as six characters, which \<^verbatim>\<open>parseBlob\<close> refuses.
\<close>

theorem fromJSON_toJSON_counterexample:
  "fromJSON sample_other sample_join_raises sample_fromText (toJSON sample_toText short_key_chain)
     = Inl (Error ''Invalid public key.'')
   \<and> fromJSON sample_other sample_join_raises sample_fromText (toJSON sample_toText short_key_chain)
     \<noteq> Inr short_key_chain"
  by (simp add: fromJSON_def toJSON_def short_key_chain_def parseBlob_def toString_hex_def)

text \<open>
  Claim C2. \<^verbatim>\<open>toJSON\<close> is to give each delegation that has targets a \<^verbatim>\<open>targets\<close>
  key listing them as text. For a chain with one delegation restricted to the target
  \<^verbatim>\<open>aaaaa-aa\<close> the code returns an object without that key: the text stands under
  the key \<^verbatim>\<open>0\<close>, beside \<^verbatim>\<open>expiration\<close> and \<^verbatim>\<open>pubkey\<close>.
\<close>

theorem toJSON_spreads_targets:
  "toJSON sample_toText targets_chain =
     JObject
       [(''delegations'',
         JArray
           [JObject
              [(''delegation'',
                JObject [(''expiration'', JString ''ff''),
                         (''pubkey'', JString ''01''),
                         (''0'', JString ''aaaaa-aa'')]),
               (''signature'', JString ''02'')]]),
        (''publicKey'', JString ''03'')]"
  by code_simp

text \<open>The same spread makes a round trip lose the targets: what \<^verbatim>\<open>fromJSON\<close> reads
  back from the JSON form of a restricted delegation is an unrestricted one.\<close>

lemma fromJSON_toJSON_drops_targets:
  "fromJSON sample_other sample_join_raises sample_fromText (toJSON sample_toText restricted_chain) =
     Inr \<lparr>delegations =
            [\<lparr>delegation = \<lparr>pubkey = replicate 32 7, expiration = BN 255, targets = None\<rparr>,
              signature = replicate 32 9\<rparr>],
          publicKey = replicate 32 1\<rparr>"
  by code_simp

subsection \<open>Domain separators\<close>

lemma domainSeparator_bytes:
  "domainSeparator =
     [0x1A, 0x69, 0x63, 0x2D, 0x72, 0x65, 0x71, 0x75, 0x65, 0x73, 0x74, 0x2D, 0x61, 0x75, 0x74, 0x68,
      0x2D, 0x64, 0x65, 0x6C, 0x65, 0x67, 0x61, 0x74, 0x69, 0x6F, 0x6E]"
  by (simp add: domainSeparator_def TextEncoder_encode_def)

lemma requestDomainSeparator_bytes:
  "requestDomainSeparator = [0x0A, 0x69, 0x63, 0x2D, 0x72, 0x65, 0x71, 0x75, 0x65, 0x73, 0x74]"
  by (simp add: requestDomainSeparator_def TextEncoder_encode_def)

subsection \<open>The request wrapper\<close>

text \<open>
  Claim C3. For a delegation identity made of an inner signer and a chain \<open>C\<close>,
  \<^verbatim>\<open>transformRequest\<close> returns a record exactly when the request-id function gives a
  digest of the body and the inner signer signs the byte \<^verbatim>\<open>0x0A\<close>, the ASCII text
  \<^verbatim>\<open>ic-request\<close> and that digest; the record then keeps every field other than
  \<^verbatim>\<open>body\<close>, and its body has the original body as \<^verbatim>\<open>content\<close>, that signature
  as \<^verbatim>\<open>sender_sig\<close>, the delegations of \<open>C\<close> as \<^verbatim>\<open>sender_delegation\<close> and the
  root public key of \<open>C\<close> as \<^verbatim>\<open>sender_pubkey\<close>.
\<close>

theorem transformRequest_envelope:
  "transformRequest requestIdOf (fromDelegation inner C) request = Inr r \<longleftrightarrow>
     (\<exists>digest s.
        requestIdOf (body request) = Inr digest \<and>
        sign inner ([0x0A, 0x69, 0x63, 0x2D, 0x72, 0x65, 0x71, 0x75, 0x65, 0x73, 0x74] @ digest) = Inr s \<and>
        r = \<lparr>body = \<lparr>content = body request, sender_sig = s,
                      sender_delegation = delegations C, sender_pubkey = publicKey C\<rparr>,
             rest = rest request\<rparr>)"
  by (auto simp: transformRequest_def fromDelegation_def DelegationIdentity_sign_def
        requestDomainSeparator_bytes split: sum.splits)

theorem transformRequest_envelope_witness:
  "transformRequest sample_requestIdOf (fromDelegation (sample_signer [5]) sample_chain)
     \<lparr>body = ''call'', rest = ''endpoint''\<rparr>
   = Inr \<lparr>body = \<lparr>content = ''call'',
                    sender_sig = [5, 0x0A, 0x69, 0x63, 0x2D, 0x72, 0x65, 0x71, 0x75, 0x65, 0x73, 0x74, 1, 2, 3],
                    sender_delegation = delegations sample_chain,
                    sender_pubkey = publicKey sample_chain\<rparr>,
           rest = ''endpoint''\<rparr>"
  using transformRequest_envelope [of sample_requestIdOf "sample_signer [5]" sample_chain
      "\<lparr>body = ''call'', rest = ''endpoint''\<rparr>"]
  by (simp add: sample_requestIdOf_def sample_signer_def)

subsection \<open>The chain builder\<close>

lemma create_Inr:
  "create requestIdOf now from to expiration' options = Inr c \<Longrightarrow>
   \<exists>sd. createSingleDelegation requestIdOf from to
           (case expiration' of None \<Rightarrow> new_Date (now + 15 * 60 * 1000) | Some d \<Rightarrow> d) None = Inr sd \<and>
        c = \<lparr>delegations = (case previous options of Some p \<Rightarrow> delegations p | None \<Rightarrow> []) @ [sd],
             publicKey = (case previous options of Some p \<Rightarrow> publicKey p
                          | None \<Rightarrow> toDer (getPublicKey from))\<rparr>"
  by (auto simp: create_def Let_def split: sum.splits)

lemma snoc_by_parts:
  assumes "length ys = length xs + 1" "take (length xs) ys = xs" "last ys = y"
  shows "ys = xs @ [y]"
proof -
  from assms(1) have ne: "ys \<noteq> []" by auto
  have "butlast ys = take (length ys - 1) ys" by (rule butlast_conv_take)
  with assms(1,2) have "butlast ys = xs" by simp
  with ne assms(3) show ?thesis using append_butlast_last_id [of ys] by simp
qed

text \<open>
  Claim C4. A call of \<^verbatim>\<open>create\<close> returns a chain exactly when the signing of the
  one new delegation succeeds. When \<^verbatim>\<open>options.previous\<close> is a chain of length \<open>n\<close>,
  the result has length \<open>n + 1\<close>, its first \<open>n\<close> entries are the previous chain's
  entries, the new signed delegation is its last entry, and its root public key is the
  previous chain's. When \<^verbatim>\<open>options.previous\<close> is absent, the result's sequence is
  the one new signed delegation and its root public key is the DER form of the public
  key of \<^verbatim>\<open>from\<close>.
\<close>

theorem create_chain:
  "create requestIdOf now from to expiration' options = Inr c \<longleftrightarrow>
     (\<exists>sd. createSingleDelegation requestIdOf from to
             (case expiration' of None \<Rightarrow> new_Date (now + 15 * 60 * 1000) | Some d \<Rightarrow> d) None = Inr sd \<and>
        (case previous options of
           Some p \<Rightarrow>
             length (delegations c) = length (delegations p) + 1 \<and>
             take (length (delegations p)) (delegations c) = delegations p \<and>
             last (delegations c) = sd \<and>
             publicKey c = publicKey p
         | None \<Rightarrow>
             delegations c = [sd] \<and> publicKey c = toDer (getPublicKey from)))"
proof
  assume "create requestIdOf now from to expiration' options = Inr c"
  from create_Inr [OF this] show
    "\<exists>sd. createSingleDelegation requestIdOf from to
             (case expiration' of None \<Rightarrow> new_Date (now + 15 * 60 * 1000) | Some d \<Rightarrow> d) None = Inr sd \<and>
        (case previous options of
           Some p \<Rightarrow>
             length (delegations c) = length (delegations p) + 1 \<and>
             take (length (delegations p)) (delegations c) = delegations p \<and>
             last (delegations c) = sd \<and>
             publicKey c = publicKey p
         | None \<Rightarrow>
             delegations c = [sd] \<and> publicKey c = toDer (getPublicKey from))"
    by (auto split: option.splits)
next
  assume "\<exists>sd. createSingleDelegation requestIdOf from to
             (case expiration' of None \<Rightarrow> new_Date (now + 15 * 60 * 1000) | Some d \<Rightarrow> d) None = Inr sd \<and>
        (case previous options of
           Some p \<Rightarrow>
             length (delegations c) = length (delegations p) + 1 \<and>
             take (length (delegations p)) (delegations c) = delegations p \<and>
             last (delegations c) = sd \<and>
             publicKey c = publicKey p
         | None \<Rightarrow>
             delegations c = [sd] \<and> publicKey c = toDer (getPublicKey from))"
  then obtain sd where
    sd: "createSingleDelegation requestIdOf from to
           (case expiration' of None \<Rightarrow> new_Date (now + 15 * 60 * 1000) | Some d \<Rightarrow> d) None = Inr sd"
    and shape: "case previous options of
           Some p \<Rightarrow>
             length (delegations c) = length (delegations p) + 1 \<and>
             take (length (delegations p)) (delegations c) = delegations p \<and>
             last (delegations c) = sd \<and>
             publicKey c = publicKey p
         | None \<Rightarrow>
             delegations c = [sd] \<and> publicKey c = toDer (getPublicKey from)"
    by blast
  show "create requestIdOf now from to expiration' options = Inr c"
  proof (cases "previous options")
    case None
    with shape have "c = \<lparr>delegations = [sd], publicKey = toDer (getPublicKey from)\<rparr>" by simp
    with sd None show ?thesis by (simp add: create_def)
  next
    case (Some p)
    with shape have "delegations c = delegations p @ [sd]" "publicKey c = publicKey p"
      by (simp_all add: snoc_by_parts)
    then have "c = \<lparr>delegations = delegations p @ [sd], publicKey = publicKey p\<rparr>" by simp
    with sd Some show ?thesis by (simp add: create_def)
  qed
qed

theorem create_chain_witness:
  "create sample_requestIdOf 0 (sample_signer [8]) \<lparr>toDer = [4]\<rparr> (Some (Date 1000))
     \<lparr>previous = Some short_key_chain\<rparr>
   = Inr \<lparr>delegations =
            [\<lparr>delegation = \<lparr>pubkey = [4], expiration = BN 1000000000, targets = None\<rparr>,
              signature = 8 # domainSeparator @ [1, 2, 3]\<rparr>],
          publicKey = [1, 2, 3]\<rparr>"
  using create_chain [of sample_requestIdOf 0 "sample_signer [8]" "\<lparr>toDer = [4]\<rparr>" "Some (Date 1000)"
      "\<lparr>previous = Some short_key_chain\<rparr>"
      "\<lparr>delegations =
            [\<lparr>delegation = \<lparr>pubkey = [4], expiration = BN 1000000000, targets = None\<rparr>,
              signature = 8 # domainSeparator @ [1, 2, 3]\<rparr>],
          publicKey = [1, 2, 3]\<rparr>"]
  by (simp add: createSingleDelegation_def signDelegation_def sample_requestIdOf_def
        sample_signer_def short_key_chain_def)

text \<open>
  Claim C5. A signed delegation is produced exactly when the request-id function gives
  a digest of the delegation record and \<^verbatim>\<open>from.sign\<close> signs the byte \<^verbatim>\<open>0x1A\<close>, the
  ASCII text \<^verbatim>\<open>ic-request-auth-delegation\<close> and that digest; the signature stored
  is what that call of \<^verbatim>\<open>from.sign\<close> returned, and the record signed is the one
  stored beside it.
\<close>

theorem createSingleDelegation_signature:
  "createSingleDelegation requestIdOf from to expiration' targets' = Inr sd \<longleftrightarrow>
     (\<exists>digest.
        requestIdOf (delegation sd) = Inr digest \<and>
        sign from ([0x1A, 0x69, 0x63, 0x2D, 0x72, 0x65, 0x71, 0x75, 0x65, 0x73, 0x74, 0x2D, 0x61, 0x75,
                    0x74, 0x68, 0x2D, 0x64, 0x65, 0x6C, 0x65, 0x67, 0x61, 0x74, 0x69, 0x6F, 0x6E] @ digest)
          = Inr (signature sd) \<and>
        delegation sd = \<lparr>pubkey = toDer to,
                          expiration = times (new_BigNumber (valueOf expiration')) 1000000,
                          targets = targets'\<rparr>)"
  by (cases sd) (auto simp: createSingleDelegation_def signDelegation_def domainSeparator_bytes Let_def
        split: sum.splits)

theorem createSingleDelegation_signature_witness:
  "createSingleDelegation sample_requestIdOf (sample_signer [8]) \<lparr>toDer = [4]\<rparr> (Date 1000)
     (Some [''aaaaa-aa''])
   = Inr \<lparr>delegation = \<lparr>pubkey = [4], expiration = BN 1000000000, targets = Some [''aaaaa-aa'']\<rparr>,
          signature =
            [8, 0x1A, 0x69, 0x63, 0x2D, 0x72, 0x65, 0x71, 0x75, 0x65, 0x73, 0x74, 0x2D, 0x61, 0x75,
             0x74, 0x68, 0x2D, 0x64, 0x65, 0x6C, 0x65, 0x67, 0x61, 0x74, 0x69, 0x6F, 0x6E, 1, 2, 3]\<rparr>"
  using createSingleDelegation_signature [of sample_requestIdOf "sample_signer [8]" "\<lparr>toDer = [4]\<rparr>"
      "Date 1000" "Some [''aaaaa-aa'']"
      "\<lparr>delegation = \<lparr>pubkey = [4], expiration = BN 1000000000, targets = Some [''aaaaa-aa'']\<rparr>,
          signature =
            [8, 0x1A, 0x69, 0x63, 0x2D, 0x72, 0x65, 0x71, 0x75, 0x65, 0x73, 0x74, 0x2D, 0x61, 0x75,
             0x74, 0x68, 0x2D, 0x64, 0x65, 0x6C, 0x65, 0x67, 0x61, 0x74, 0x69, 0x6F, 0x6E, 1, 2, 3]\<rparr>"]
  by (simp add: sample_requestIdOf_def sample_signer_def)

text \<open>
  Claim C6. For an inner signer and a chain \<open>C\<close> whose root public key differs from
  the inner signer's own key, \<^verbatim>\<open>fromDelegation(inner, C).getPublicKey().toDer()\<close> is
  the root public key of \<open>C\<close>, and so is not the inner signer's key.
\<close>

theorem getPublicKey_is_root:
  "publicKey C \<noteq> toDer (getPublicKey inner) \<Longrightarrow>
     toDer (DelegationIdentity_getPublicKey (fromDelegation inner C)) = publicKey C \<and>
     toDer (DelegationIdentity_getPublicKey (fromDelegation inner C)) \<noteq> toDer (getPublicKey inner)"
  by (simp add: DelegationIdentity_getPublicKey_def fromDelegation_def)

theorem getPublicKey_is_root_witness:
  "publicKey short_key_chain \<noteq> toDer (getPublicKey (sample_signer [5])) \<and>
   toDer (DelegationIdentity_getPublicKey (fromDelegation (sample_signer [5]) short_key_chain)) = [1, 2, 3] \<and>
   toDer (DelegationIdentity_getPublicKey (fromDelegation (sample_signer [5]) short_key_chain))
     \<noteq> toDer (getPublicKey (sample_signer [5]))"
  using getPublicKey_is_root [of short_key_chain "sample_signer [5]"]
  by (simp add: short_key_chain_def sample_signer_def)

text \<open>
  Claim C8. When \<^verbatim>\<open>create\<close> is given an expiration instant of \<open>ms\<close> milliseconds
  since the epoch, the expiration stored in the new delegation is the integer
  \<open>ms * 1000000\<close>, an integer of unbounded size: nothing is reduced to 64 bits.
\<close>

theorem create_expiration:
  assumes "create requestIdOf now from to (Some (Date ms)) options = Inr c"
  shows "expiration (delegation (last (delegations c))) = BN (ms * 1000000)"
proof -
  from create_Inr [OF assms] obtain sd where
    sd: "createSingleDelegation requestIdOf from to (Date ms) None = Inr sd"
    and c: "last (delegations c) = sd" by auto
  from sd have "expiration (delegation sd) = BN (ms * 1000000)"
    by (auto simp: createSingleDelegation_def Let_def split: sum.splits)
  with c show ?thesis by simp
qed

theorem create_expiration_witness:
  "create sample_requestIdOf 0 (sample_signer [8]) \<lparr>toDer = [4]\<rparr> (Some (Date 8640000000000000))
     \<lparr>previous = None\<rparr>
   = Inr \<lparr>delegations =
            [\<lparr>delegation = \<lparr>pubkey = [4], expiration = BN 8640000000000000000000, targets = None\<rparr>,
              signature = 8 # domainSeparator @ [1, 2, 3]\<rparr>],
          publicKey = [8]\<rparr>
   \<and> expiration (delegation (last (delegations
        \<lparr>delegations =
            [\<lparr>delegation = \<lparr>pubkey = [4], expiration = BN 8640000000000000000000, targets = None\<rparr>,
              signature = 8 # domainSeparator @ [1, 2, 3]\<rparr>],
          publicKey = [8]\<rparr>))) = BN (8640000000000000 * 1000000)
   \<and> (2 :: int) ^ 64 < 8640000000000000 * 1000000"
proof -
  have run: "create sample_requestIdOf 0 (sample_signer [8]) \<lparr>toDer = [4]\<rparr> (Some (Date 8640000000000000))
     \<lparr>previous = None\<rparr>
   = Inr \<lparr>delegations =
            [\<lparr>delegation = \<lparr>pubkey = [4], expiration = BN 8640000000000000000000, targets = None\<rparr>,
              signature = 8 # domainSeparator @ [1, 2, 3]\<rparr>],
          publicKey = [8]\<rparr>"
    by (simp add: create_def createSingleDelegation_def signDelegation_def sample_requestIdOf_def
          sample_signer_def)
  from create_expiration [OF run] run show ?thesis by simp
qed

lemma create_targets:
  assumes "create requestIdOf now from to expiration' options = Inr c"
    and "\<And>p. previous options = Some p \<Longrightarrow> \<forall>sd\<in>set (delegations p). targets (delegation sd) = None"
  shows "\<forall>sd\<in>set (delegations c). targets (delegation sd) = None"
proof -
  from create_Inr [OF assms(1)] obtain sd where
    sd: "createSingleDelegation requestIdOf from to
           (case expiration' of None \<Rightarrow> new_Date (now + 15 * 60 * 1000) | Some d \<Rightarrow> d) None = Inr sd"
    and c: "delegations c = (case previous options of Some p \<Rightarrow> delegations p | None \<Rightarrow> []) @ [sd]"
    by auto
  from sd have "targets (delegation sd) = None"
    by (auto simp: createSingleDelegation_def Let_def split: sum.splits)
  then show ?thesis using c assms(2) by (auto split: option.splits)
qed

lemma create_last_targets:
  assumes "create requestIdOf now from to expiration' options = Inr c"
  shows "targets (delegation (last (delegations c))) = None"
proof -
  from create_Inr [OF assms] obtain sd where
    sd: "createSingleDelegation requestIdOf from to
           (case expiration' of None \<Rightarrow> new_Date (now + 15 * 60 * 1000) | Some d \<Rightarrow> d) None = Inr sd"
    and c: "last (delegations c) = sd"
    by auto
  from sd have "targets (delegation sd) = None"
    by (auto simp: createSingleDelegation_def Let_def split: sum.splits)
  with c show ?thesis by simp
qed

lemma built_by_create_targets:
  "built_by_create requestIdOf c \<Longrightarrow> \<forall>sd\<in>set (delegations c). targets (delegation sd) = None"
proof (induction rule: built_by_create.induct)
  case (first now "from" to expiration' c)
  then show ?case
    using create_targets [of requestIdOf now "from" to expiration' "\<lparr>previous = None\<rparr>" c]
    by simp
next
  case (extend p now "from" to expiration' c)
  then show ?case
    using create_targets [of requestIdOf now "from" to expiration' "\<lparr>previous = Some p\<rparr>" c]
    by simp
qed

text \<open>
  Claim C9. \<^verbatim>\<open>create\<close> never passes targets to \<^verbatim>\<open>_createSingleDelegation\<close>: the
  signed delegation that a call of \<^verbatim>\<open>create\<close> appends has no \<^verbatim>\<open>targets\<close> field,
  whatever the previous chain; and in every chain built by \<^verbatim>\<open>create\<close>, from nothing
  or by extending a chain that \<^verbatim>\<open>create\<close> built, no delegation has one.
\<close>

theorem built_by_create_unrestricted:
  "(create requestIdOf now from to expiration' options = Inr c' \<longrightarrow>
      targets (delegation (last (delegations c'))) = None) \<and>
   (built_by_create requestIdOf c \<longrightarrow>
      (\<forall>sd\<in>set (delegations c). targets (delegation sd) = None))"
  using create_last_targets [of requestIdOf now "from" to expiration' options c']
    built_by_create_targets [of requestIdOf c]
  by blast

theorem built_by_create_unrestricted_witness:
  "create sample_requestIdOf 0 (sample_signer [4]) \<lparr>toDer = [6]\<rparr> (Some (Date 2000))
     \<lparr>previous =
        Some \<lparr>delegations =
                [\<lparr>delegation = \<lparr>pubkey = [4], expiration = BN 1000000000,
                                  targets = (None :: string list option)\<rparr>,
                  signature = 8 # domainSeparator @ [1, 2, 3]\<rparr>],
              publicKey = [8]\<rparr>\<rparr>
   = Inr \<lparr>delegations =
            [\<lparr>delegation = \<lparr>pubkey = [4], expiration = BN 1000000000, targets = None\<rparr>,
              signature = 8 # domainSeparator @ [1, 2, 3]\<rparr>,
             \<lparr>delegation = \<lparr>pubkey = [6], expiration = BN 2000000000, targets = None\<rparr>,
              signature = 4 # domainSeparator @ [1, 2, 3]\<rparr>],
          publicKey = [8]\<rparr>
   \<and> built_by_create (sample_requestIdOf :: string Delegation \<Rightarrow> error + BinaryBlob)
       \<lparr>delegations =
          [\<lparr>delegation = \<lparr>pubkey = [4], expiration = BN 1000000000, targets = None\<rparr>,
            signature = 8 # domainSeparator @ [1, 2, 3]\<rparr>,
           \<lparr>delegation = \<lparr>pubkey = [6], expiration = BN 2000000000, targets = None\<rparr>,
            signature = 4 # domainSeparator @ [1, 2, 3]\<rparr>],
        publicKey = [8]\<rparr>
   \<and> map (\<lambda>sd. targets (delegation sd))
       (delegations
          \<lparr>delegations =
             [\<lparr>delegation = \<lparr>pubkey = [4], expiration = BN 1000000000,
                               targets = (None :: string list option)\<rparr>,
               signature = 8 # domainSeparator @ [1, 2, 3]\<rparr>,
              \<lparr>delegation = \<lparr>pubkey = [6], expiration = BN 2000000000, targets = None\<rparr>,
               signature = 4 # domainSeparator @ [1, 2, 3]\<rparr>],
           publicKey = [8]\<rparr>) = [None, None]"
proof -
  let ?c1 = "\<lparr>delegations =
        [\<lparr>delegation = \<lparr>pubkey = [4], expiration = BN 1000000000, targets = (None :: string list option)\<rparr>,
          signature = 8 # domainSeparator @ [1, 2, 3]\<rparr>],
      publicKey = [8]\<rparr>"
  let ?c2 = "\<lparr>delegations =
        [\<lparr>delegation = \<lparr>pubkey = [4], expiration = BN 1000000000, targets = (None :: string list option)\<rparr>,
          signature = 8 # domainSeparator @ [1, 2, 3]\<rparr>,
         \<lparr>delegation = \<lparr>pubkey = [6], expiration = BN 2000000000, targets = None\<rparr>,
          signature = 4 # domainSeparator @ [1, 2, 3]\<rparr>],
      publicKey = [8]\<rparr>"
  have "create sample_requestIdOf 0 (sample_signer [8]) \<lparr>toDer = [4]\<rparr> (Some (Date 1000))
          \<lparr>previous = None\<rparr> = Inr ?c1"
    by (simp add: create_def createSingleDelegation_def signDelegation_def sample_requestIdOf_def
          sample_signer_def)
  then have b1: "built_by_create sample_requestIdOf ?c1" by (rule built_by_create.first)
  have run: "create sample_requestIdOf 0 (sample_signer [4]) \<lparr>toDer = [6]\<rparr> (Some (Date 2000))
          \<lparr>previous = Some ?c1\<rparr> = Inr ?c2"
    by (simp add: create_def createSingleDelegation_def signDelegation_def sample_requestIdOf_def
          sample_signer_def)
  with b1 have b2: "built_by_create sample_requestIdOf ?c2" by (rule built_by_create.extend)
  from built_by_create_unrestricted [of sample_requestIdOf 0 "sample_signer [4]" "\<lparr>toDer = [6]\<rparr>"
      "Some (Date 2000)" "\<lparr>previous = Some ?c1\<rparr>" ?c2 ?c2] run b2
  show ?thesis by simp
qed

subsection \<open>What \<^verbatim>\<open>fromJSON\<close> refuses\<close>

lemma destructure_Inr: "destructure x = Inr d \<longleftrightarrow> x = Some d \<and> d \<noteq> JNull"
  by (cases x; cases "the x") auto

lemma parseBlob_Inr: "parseBlob x = Inr b \<Longrightarrow> isKey x"
  by (auto simp: parseBlob_def split: option.splits json.splits if_splits)

lemma array_map_Inr: "array_map f xs = Inr ys \<Longrightarrow> x \<in> set xs \<Longrightarrow> \<exists>y. f x = Inr y"
  by (induction xs arbitrary: ys) (auto split: sum.splits)

lemma parseTarget_Inr: "parseTarget fromText t = Inr p \<Longrightarrow> isString t"
  by (cases t) (auto simp: parseTarget_def)

lemma parseSignedDelegation_Inr:
  assumes "parseSignedDelegation other join_raises fromText e = Inr sd"
  shows "\<exists>d. get e ''delegation'' = Some d \<and> isKey (get d ''pubkey'') \<and> isKey (get e ''signature'') \<and>
             (\<forall>t. get d ''targets'' = Some t \<longrightarrow> isTexts t)"
proof -
  from assms obtain d where d: "get e ''delegation'' = Some d"
    by (auto simp: parseSignedDelegation_def destructure_Inr split: sum.splits)
  from assms d have k: "isKey (get d ''pubkey'')" "isKey (get e ''signature'')"
    by (auto simp: parseSignedDelegation_def destructure_Inr dest: parseBlob_Inr split: sum.splits if_splits)
  have "isTexts t" if t: "get d ''targets'' = Some t" for t
  proof -
    from assms d t obtain ts ps where ts: "t = JArray ts" "array_map (parseTarget fromText) ts = Inr ps"
      by (cases t) (auto simp: parseSignedDelegation_def destructure_Inr split: sum.splits if_splits)
    have "isString x" if "x \<in> set ts" for x
      using array_map_Inr [OF ts(2) that] by (auto dest: parseTarget_Inr)
    then show ?thesis using ts(1) by (simp add: list_all_iff)
  qed
  with d k show ?thesis by blast
qed

text \<open>
  Claim C7. \<^verbatim>\<open>fromJSON\<close> ends in an error, and returns no chain, whenever the
  \<^verbatim>\<open>delegations\<close> of its input is absent or not a sequence; whenever some entry's
  delegation has a \<^verbatim>\<open>targets\<close> that is not a sequence of texts, or a \<^verbatim>\<open>pubkey\<close>
  that is not a text of at least 64 characters, or the entry's \<^verbatim>\<open>signature\<close> is not
  such a text; and whenever the root \<^verbatim>\<open>publicKey\<close> is not such a text. The function
  is synchronous: the error is its result.
\<close>

theorem fromJSON_rejects:
  assumes "\<not> isArray (get v ''delegations'')
     \<or> (\<exists>ds e d. get v ''delegations'' = Some (JArray ds) \<and> e \<in> set ds \<and> get e ''delegation'' = Some d \<and>
          ((\<exists>t. get d ''targets'' = Some t \<and> \<not> isTexts t) \<or> \<not> isKey (get d ''pubkey'')
           \<or> \<not> isKey (get e ''signature'')))
     \<or> \<not> isKey (get v ''publicKey'')"
  shows "\<exists>err. fromJSON other join_raises fromText v = Inl err"
proof (cases "fromJSON other join_raises fromText v")
  case (Inl err)
  then show ?thesis by blast
next
  case (Inr c)
  then obtain ds where ds: "get v ''delegations'' = Some (JArray ds)"
    and all: "array_map (parseSignedDelegation other join_raises fromText) ds = Inr (delegations c)"
    and pk: "isKey (get v ''publicKey'')"
    by (auto simp: fromJSON_def destructure_Inr dest: parseBlob_Inr
          split: sum.splits option.splits json.splits)
  have "\<exists>d'. get e ''delegation'' = Some d' \<and> isKey (get d' ''pubkey'') \<and> isKey (get e ''signature'') \<and>
             (\<forall>t. get d' ''targets'' = Some t \<longrightarrow> isTexts t)" if "e \<in> set ds" for e
    using array_map_Inr [OF all that] parseSignedDelegation_Inr by blast
  with assms ds pk show ?thesis by fastforce
qed

theorem fromJSON_rejects_witness:
  "(\<exists>err. fromJSON sample_other sample_join_raises sample_fromText (JObject [(''publicKey'', JString (replicate 64 (CHR ''a'')))])
            = Inl err)
   \<and> (\<exists>err. fromJSON sample_other sample_join_raises sample_fromText
              (JObject
                 [(''publicKey'', JString (replicate 64 (CHR ''a''))),
                  (''delegations'',
                   JArray
                     [JObject
                        [(''delegation'',
                          JObject [(''pubkey'', JString (replicate 64 (CHR ''b''))),
                                   (''expiration'', JString ''ff''),
                                   (''targets'', JArray [JString ''aaaaa-aa'', JNumber 7])]),
                         (''signature'', JString (replicate 64 (CHR ''c'')))]])])
            = Inl err)
   \<and> (\<exists>err. fromJSON sample_other sample_join_raises sample_fromText
              (JObject
                 [(''publicKey'', JString (replicate 64 (CHR ''a''))),
                  (''delegations'',
                   JArray
                     [JObject
                        [(''delegation'',
                          JObject [(''pubkey'', JString (replicate 63 (CHR ''b''))),
                                   (''expiration'', JString ''ff'')]),
                         (''signature'', JString (replicate 64 (CHR ''c'')))]])])
            = Inl err)
   \<and> (\<exists>err. fromJSON sample_other sample_join_raises sample_fromText
              (JObject [(''publicKey'', JNumber 5), (''delegations'', JArray [])])
            = Inl err)"
proof -
  let ?e2 = "JObject
                        [(''delegation'',
                          JObject [(''pubkey'', JString (replicate 64 (CHR ''b''))),
                                   (''expiration'', JString ''ff''),
                                   (''targets'', JArray [JString ''aaaaa-aa'', JNumber 7])]),
                         (''signature'', JString (replicate 64 (CHR ''c'')))]"
  let ?e3 = "JObject
                        [(''delegation'',
                          JObject [(''pubkey'', JString (replicate 63 (CHR ''b''))),
                                   (''expiration'', JString ''ff'')]),
                         (''signature'', JString (replicate 64 (CHR ''c'')))]"
  have 1: "\<exists>err. fromJSON sample_other sample_join_raises sample_fromText
             (JObject [(''publicKey'', JString (replicate 64 (CHR ''a'')))]) = Inl err"
    by (rule fromJSON_rejects) simp
  have 2: "\<exists>err. fromJSON sample_other sample_join_raises sample_fromText
             (JObject [(''publicKey'', JString (replicate 64 (CHR ''a''))),
                       (''delegations'', JArray [?e2])]) = Inl err"
    by (rule fromJSON_rejects, rule disjI2, rule disjI1, rule exI [of _ "[?e2]"], rule exI [of _ ?e2])
       simp
  have 3: "\<exists>err. fromJSON sample_other sample_join_raises sample_fromText
             (JObject [(''publicKey'', JString (replicate 64 (CHR ''a''))),
                       (''delegations'', JArray [?e3])]) = Inl err"
    by (rule fromJSON_rejects, rule disjI2, rule disjI1, rule exI [of _ "[?e3]"], rule exI [of _ ?e3])
       simp
  have 4: "\<exists>err. fromJSON sample_other sample_join_raises sample_fromText
             (JObject [(''publicKey'', JNumber 5), (''delegations'', JArray [])]) = Inl err"
    by (rule fromJSON_rejects) simp
  from 1 2 3 4 show ?thesis by blast
qed

subsection \<open>The expiration and the failures of \<^verbatim>\<open>fromJSON\<close>\<close>

lemma get_set_prop_other: "k \<noteq> k' \<Longrightarrow> get (set_prop k x v) k' = get v k'"
  by (cases v; cases x) (simp_all add: update_conv' delete_conv')

lemma get_set_prop_same: "get (set_prop k x (JObject kvs)) k = x"
  by (cases x) (simp_all add: update_conv' delete_conv')

lemma set_prop_JNull: "set_prop k x v = JNull \<longleftrightarrow> v = JNull"
  by (cases v; cases x) simp_all

lemma new_BigNumber16_returns:
  "(case x of None \<Rightarrow> True | Some j \<Rightarrow> String_raises join_raises j = None)
     \<Longrightarrow> \<exists>b. new_BigNumber16 other join_raises x = Inr b"
  by (cases "(other, join_raises, x)" rule: new_BigNumber16.cases) simp_all

lemma new_BigNumber16_no_numeral:
  "list_ex no_numeral_letter s \<Longrightarrow> new_BigNumber16 other join_raises (Some (JString s)) = Inr NaN"
proof -
  assume ex: "list_ex no_numeral_letter s"
  then obtain c where c: "c \<in> set s" "no_numeral_letter c" by (auto simp: list_ex_iff)
  from c(2) have nl: "\<not> lower16 c"
    by (auto simp: no_numeral_letter_def lower16_def Let_def)
  with c(1) have np: "\<not> plain16 s" by (auto simp: plain16_def list_all_iff)
  from c(2) have nm: "c \<noteq> CHR ''-''" by (auto simp: no_numeral_letter_def)
  have "\<not> plain16 r" if "s = CHR ''-'' # r" for r
    using that c(1) nm nl by (auto simp: plain16_def list_all_iff)
  with np ex show ?thesis by (cases s) auto
qed

lemma parseSignedDelegation_with_expiration:
  assumes ok: "parseSignedDelegation other join_raises fromText e = Inr sd"
    and x: "new_BigNumber16 other join_raises x = Inr b"
  shows "parseSignedDelegation other join_raises fromText (with_expiration x e) = Inr (expiring b sd)"
proof -
  from parseSignedDelegation_Inr [OF ok] obtain d where
    d: "get e ''delegation'' = Some d" and pk: "isKey (get d ''pubkey'')" by blast
  from d obtain kvs where e: "e = JObject kvs" by (cases e) auto
  from pk obtain dkvs where dk: "d = JObject dkvs" by (cases d) auto
  let ?e' = "with_expiration x e"
  let ?d' = "set_prop ''expiration'' x d"
  have e': "with_expiration x (JObject kvs) = set_prop ''delegation'' (Some ?d') (JObject kvs)"
    using d e by (simp add: with_expiration_def del: set_prop.simps)
  have g1: "get ?e' ''delegation'' = Some ?d'"
    by (simp only: e e' get_set_prop_same)
  have g2: "get ?e' ''signature'' = get e ''signature''"
    by (simp add: e e' get_set_prop_other del: set_prop.simps)
  have de: "destructure (Some ?e') = Inr ?e'" "destructure (Some e) = Inr e"
    by (simp_all add: destructure_Inr e e' set_prop_JNull del: set_prop.simps)
  have h: "get ?d' ''targets'' = get d ''targets''" "get ?d' ''pubkey'' = get d ''pubkey''"
    "get ?d' ''expiration'' = x"
    by (simp_all add: get_set_prop_other) (simp add: dk get_set_prop_same)
  have dd: "destructure (Some ?d') = Inr ?d'" "destructure (Some d) = Inr d"
    using dk by (simp_all add: destructure_Inr set_prop_JNull)
  from ok show ?thesis
    unfolding parseSignedDelegation_def de sum.case g1 g2 d dd h x
    by (auto simp: expiring_def split: sum.splits option.splits json.splits if_splits)
qed

lemma array_map_with_expiration:
  assumes "\<And>i. \<exists>b. new_BigNumber16 other join_raises (f i) = Inr b"
  shows "array_map (parseSignedDelegation other join_raises fromText) ds = Inr sds \<Longrightarrow>
     array_map (parseSignedDelegation other join_raises fromText)
       (map (\<lambda>(i, e). with_expiration (f i) e) (enumerate n ds)) =
     Inr (map (\<lambda>(i, sd). expiring (projr (new_BigNumber16 other join_raises (f i))) sd) (enumerate n sds))"
proof (induction ds arbitrary: n sds)
  case Nil
  then show ?case by auto
next
  case (Cons e ds)
  from Cons.prems obtain sd sds' where
    sd: "parseSignedDelegation other join_raises fromText e = Inr sd"
    and rest': "array_map (parseSignedDelegation other join_raises fromText) ds = Inr sds'"
    and sds: "sds = sd # sds'"
    by (auto split: sum.splits)
  from assms [of n] obtain b where b: "new_BigNumber16 other join_raises (f n) = Inr b" by blast
  show ?case
    using Cons.IH [OF rest', of "Suc n"] parseSignedDelegation_with_expiration [OF sd b] b
    by (simp add: sds)
qed

text \<open>
  Claim C10, as amended. Take a parsed input that \<^verbatim>\<open>fromJSON\<close> accepts, and replace
  the \<^verbatim>\<open>expiration\<close> of every entry by any value that \<^verbatim>\<open>String\<close> converts to a
  text without raising (every text, also one that is no base-16 numeral; every
  number, every boolean, \<^verbatim>\<open>null\<close>; every object with no property named
  \<^verbatim>\<open>toString\<close>; the arrays that the engine joins without raising), or remove it.
  Then \<^verbatim>\<open>fromJSON\<close> accepts the new input too, and returns the same chain with, as
  expiration of each delegation, what the big-number constructor reads from the new
  value; for a text that holds a letter of no numeral (any letter but \<^verbatim>\<open>a\<close> to
  \<^verbatim>\<open>f\<close>, \<^verbatim>\<open>i\<close>, \<^verbatim>\<open>n\<close>, \<^verbatim>\<open>o\<close>, \<^verbatim>\<open>t\<close>, \<^verbatim>\<open>x\<close>, \<^verbatim>\<open>y\<close>) that is not-a-number.
\<close>

theorem fromJSON_with_expirations:
  assumes "fromJSON other join_raises fromText v = Inr c"
    and "\<forall>i. case f i of None \<Rightarrow> True | Some j \<Rightarrow> String_raises join_raises j = None"
  shows "\<exists>c'. fromJSON other join_raises fromText (with_expirations f v) = Inr c' \<and>
     c' = c\<lparr>delegations :=
              map (\<lambda>(i, sd). expiring (projr (new_BigNumber16 other join_raises (f i))) sd)
                (enumerate 0 (delegations c))\<rparr> \<and>
     (\<forall>i s. i < length (delegations c') \<and> f i = Some (JString s) \<and> list_ex no_numeral_letter s
        \<longrightarrow> expiration (delegation (delegations c' ! i)) = NaN)"
proof -
  from assms(1) obtain ds pk where ds: "get v ''delegations'' = Some (JArray ds)"
    and all: "array_map (parseSignedDelegation other join_raises fromText) ds = Inr (delegations c)"
    and pk: "parseBlob (get v ''publicKey'') = Inr pk" and c: "publicKey c = pk"
    by (auto simp: fromJSON_def destructure_Inr split: sum.splits option.splits json.splits)
  from ds obtain kvs where v: "v = JObject kvs" by (cases v) auto
  let ?ds' = "map (\<lambda>(i, e). with_expiration (f i) e) (enumerate 0 ds)"
  let ?v' = "with_expirations f v"
  have v': "with_expirations f (JObject kvs) = set_prop ''delegations'' (Some (JArray ?ds')) (JObject kvs)"
    using ds v by (simp add: with_expirations_def del: set_prop.simps)
  have g1: "get ?v' ''delegations'' = Some (JArray ?ds')"
    by (simp only: v v' get_set_prop_same)
  have g2: "get ?v' ''publicKey'' = get v ''publicKey''"
    by (simp add: v v' get_set_prop_other del: set_prop.simps)
  have de: "destructure (Some ?v') = Inr ?v'"
    by (simp add: destructure_Inr v v' set_prop_JNull del: set_prop.simps)
  have r: "\<exists>b. new_BigNumber16 other join_raises (f i) = Inr b" for i
    using assms(2) new_BigNumber16_returns [where x = "f i" and join_raises = join_raises] by blast
  have "c\<lparr>delegations := X\<rparr> = \<lparr>delegations = X, publicKey = pk\<rparr>" for X
    using c by (cases c) simp
  then have accepted: "fromJSON other join_raises fromText (with_expirations f v) =
     Inr (c\<lparr>delegations :=
              map (\<lambda>(i, sd). expiring (projr (new_BigNumber16 other join_raises (f i))) sd)
                (enumerate 0 (delegations c))\<rparr>)"
    unfolding fromJSON_def de sum.case g1 g2 option.case json.case
      array_map_with_expiration [where f = f, OF r all] pk
    by simp
  let ?c' = "c\<lparr>delegations :=
              map (\<lambda>(i, sd). expiring (projr (new_BigNumber16 other join_raises (f i))) sd)
                (enumerate 0 (delegations c))\<rparr>"
  have "expiration (delegation (delegations ?c' ! i)) = NaN"
    if "i < length (delegations ?c')" "f i = Some (JString s)" "list_ex no_numeral_letter s" for i s
  proof -
    from that(1) have i: "i < length (delegations c)" by simp
    have "projr (new_BigNumber16 other join_raises (f i)) = NaN"
      using that(2,3) new_BigNumber16_no_numeral [where s = s] by simp
    with i show ?thesis by (simp add: nth_enumerate_eq expiring_def)
  qed
  with accepted show ?thesis by blast
qed

theorem fromJSON_with_expirations_witness:
  "fromJSON sample_other sample_join_raises sample_fromText
     (with_expirations sample_expirations sample_parsed) =
     Inr \<lparr>delegations =
            [\<lparr>delegation = \<lparr>pubkey = replicate 32 0xBB, expiration = NaN, targets = None\<rparr>,
              signature = replicate 32 0xCC\<rparr>,
             \<lparr>delegation = \<lparr>pubkey = replicate 32 0xDD, expiration = BN 4096, targets = None\<rparr>,
              signature = replicate 32 0xEE\<rparr>],
          publicKey = replicate 32 0xAA\<rparr>
   \<and> fromJSON sample_other sample_join_raises sample_fromText sample_parsed =
     Inr \<lparr>delegations =
            [\<lparr>delegation = \<lparr>pubkey = replicate 32 0xBB, expiration = BN 255, targets = None\<rparr>,
              signature = replicate 32 0xCC\<rparr>,
             \<lparr>delegation = \<lparr>pubkey = replicate 32 0xDD, expiration = BN (- 16), targets = None\<rparr>,
              signature = replicate 32 0xEE\<rparr>],
          publicKey = replicate 32 0xAA\<rparr>"
proof -
  have run: "fromJSON sample_other sample_join_raises sample_fromText sample_parsed =
     Inr \<lparr>delegations =
            [\<lparr>delegation = \<lparr>pubkey = replicate 32 0xBB, expiration = BN 255, targets = None\<rparr>,
              signature = replicate 32 0xCC\<rparr>,
             \<lparr>delegation = \<lparr>pubkey = replicate 32 0xDD, expiration = BN (- 16), targets = None\<rparr>,
              signature = replicate 32 0xEE\<rparr>],
          publicKey = replicate 32 0xAA\<rparr>"
    by code_simp
  have texts: "\<forall>i. case sample_expirations i of None \<Rightarrow> True
                  | Some j \<Rightarrow> String_raises sample_join_raises j = None"
    by (simp add: sample_expirations_def)
  have e0: "new_BigNumber16 sample_other sample_join_raises (sample_expirations 0) = Inr NaN"
    by code_simp
  have e1: "new_BigNumber16 sample_other sample_join_raises (sample_expirations (Suc 0)) = Inr (BN 4096)"
    by code_simp
  show ?thesis
    using fromJSON_with_expirations [OF run texts]
    by (simp add: run expiring_def e0 e1)
qed

text \<open>
  The claim as first stated, for any expiration value at all, fails: an expiration that
  is an object with a property named \<^verbatim>\<open>toString\<close> has no text form, and
  \<^verbatim>\<open>fromJSON\<close> ends in a \<^verbatim>\<open>TypeError\<close>, although the same input with the text
  \<^verbatim>\<open>zz\<close> as expiration is accepted.
\<close>

theorem fromJSON_expiration_counterexample:
  "fromJSON sample_other sample_join_raises sample_fromText unreadable_parsed = Inl TypeError
   \<and> fromJSON sample_other sample_join_raises sample_fromText readable_parsed =
       Inr \<lparr>delegations =
              [\<lparr>delegation = \<lparr>pubkey = replicate 32 0xBB, expiration = NaN, targets = None\<rparr>,
                signature = replicate 32 0xCC\<rparr>],
            publicKey = replicate 32 0xAA\<rparr>"
  by code_simp

end
